theory Spec2Isabelle
  imports Complex_Main "HOL-Library.Multiset"
begin

section \<open>The preprocessing library of MLopsLab\<close>

text \<open>
  The functions of \<^verbatim>\<open>src/preprocessing.py\<close>, one HOL definition per Python function.
  Every raise of the Python is a value: a function that can raise returns
  \<open>error + 'a\<close>, with \<open>Inl\<close> the exception.

  \<^verbatim>\<open>clip_values\<close> only compares numbers; there a number is a real, the exact value
  of a Python \<^verbatim>\<open>int\<close> or of a \<^verbatim>\<open>float\<close> other than NaN. Where the code computes,
  a number is an unbounded \<^verbatim>\<open>int\<close> or a double, and the rounding of the doubles is a
  parameter of the model.
\<close>

datatype error = ValueError | ZeroDivisionError | OverflowError | TypeError | IndexError

subsection \<open>The builtins \<^verbatim>\<open>min\<close> and \<open>max\<close>\<close>

text \<open>
  \<^verbatim>\<open>min(a, b)\<close> keeps its first argument unless the second is strictly smaller,
  \<^verbatim>\<open>max(a, b)\<close> unless the second is strictly greater.
\<close>

definition py_min2 :: "real \<Rightarrow> real \<Rightarrow> real" where
  "py_min2 a b = (if b < a then b else a)"

definition py_max2 :: "real \<Rightarrow> real \<Rightarrow> real" where
  "py_max2 a b = (if b > a then b else a)"

text \<open>
  A list comprehension whose element expression can raise: the elements are computed
  from left to right and the first exception ends the comprehension.
\<close>

fun comprehension :: "('a \<Rightarrow> error + 'b) \<Rightarrow> 'a list \<Rightarrow> error + 'b list" where
  "comprehension f [] = Inr []"
| "comprehension f (x # xs) =
     (case f x of
        Inl e \<Rightarrow> Inl e
      | Inr y \<Rightarrow> (case comprehension f xs of Inl e \<Rightarrow> Inl e | Inr ys \<Rightarrow> Inr (y # ys)))"

subsection \<open>\<^verbatim>\<open>clip_values\<close>\<close>

text \<open>
  \<^verbatim>\<open>clipped_data = [max(min(item, max_threshold), min_threshold) for item in data]\<close>
\<close>

definition clip_values :: "real list \<Rightarrow> real \<Rightarrow> real \<Rightarrow> real list" where
  "clip_values data min_threshold max_threshold =
     map (\<lambda>item. py_max2 (py_min2 item max_threshold) min_threshold) data"

subsection \<open>\<^verbatim>\<open>lst_shuffle\<close>\<close>

text \<open>
  The module \<^verbatim>\<open>random\<close> keeps one generator for the whole process. Its state is a
  value of a type \<open>'g\<close> that every call takes and returns. Its two primitives are
  parameters of the model: \<^verbatim>\<open>random.seed(a)\<close>, which sets the state from an integer,
  and \<^verbatim>\<open>_randbelow(n)\<close>, which draws an index and advances the state.
\<close>

record 'g generator =
  seed_state :: "int \<Rightarrow> 'g"
  randbelow :: "nat \<Rightarrow> 'g \<Rightarrow> nat \<times> 'g"

text \<open>
  \<^verbatim>\<open>random.shuffle(x)\<close> of the standard library:
  \<^verbatim>\<open>for i in reversed(range(1, len(x))): j = randbelow(i + 1); x[i], x[j] = x[j], x[i]\<close>.
  The loop counts \<open>i\<close> down from \<open>len(x) - 1\<close> to 1. The swap reads both elements, then
  stores \<open>x[i]\<close>, then \<open>x[j]\<close>; an index outside the list raises IndexError.
\<close>

fun shuffle_loop ::
  "(nat \<Rightarrow> 'g \<Rightarrow> nat \<times> 'g) \<Rightarrow> nat \<Rightarrow> 'a list \<Rightarrow> 'g \<Rightarrow> error + ('a list \<times> 'g)" where
  "shuffle_loop rb 0 x g = Inr (x, g)"
| "shuffle_loop rb (Suc k) x g =
     (case rb (Suc k + 1) g of
        (j, g') \<Rightarrow>
          if j < length x \<and> Suc k < length x
          then shuffle_loop rb k (x[Suc k := x ! j, j := x ! Suc k]) g'
          else Inl IndexError)"

definition random_shuffle ::
  "(nat \<Rightarrow> 'g \<Rightarrow> nat \<times> 'g) \<Rightarrow> 'a list \<Rightarrow> 'g \<Rightarrow> error + ('a list \<times> 'g)" where
  "random_shuffle rb x g = shuffle_loop rb (length x - 1) x g"

text \<open>
  \<^verbatim>\<open>lst_shuffle\<close> reseeds the generator when a seed is given, copies the list
  (\<^verbatim>\<open>data[:]\<close>) and shuffles the copy. The result is the shuffled copy and the state
  the generator is left in.
\<close>

definition lst_shuffle ::
  "'g generator \<Rightarrow> 'a list \<Rightarrow> int option \<Rightarrow> 'g \<Rightarrow> error + ('a list \<times> 'g)" where
  "lst_shuffle R data seed g =
     (let g1 = (case seed of None \<Rightarrow> g | Some s \<Rightarrow> seed_state R s);
          shuffled_data = data
      in random_shuffle (randbelow R) shuffled_data g1)"

text \<open>
  A small generator to run the model on: the state is a counter, seeding sets it to the
  absolute value of the seed, and a draw below \<open>n\<close> is the counter modulo \<open>n\<close>.
\<close>

definition counter_generator :: "nat generator" where
  "counter_generator =
     \<lparr> seed_state = (\<lambda>s. nat \<bar>s\<bar>), randbelow = (\<lambda>n g. (g mod n, g + 1)) \<rparr>"

subsection \<open>Python values: \<^verbatim>\<open>clean_values\<close> and \<^verbatim>\<open>fill_values\<close>\<close>

text \<open>
  The elements of the lists that \<^verbatim>\<open>clean_values\<close> and \<^verbatim>\<open>fill_values\<close> take are
  Python objects of several types. A float is a finite number, an infinity or NaN. An
  \<^verbatim>\<open>int\<close> is unbounded; \<^verbatim>\<open>bool\<close> is a subclass of \<^verbatim>\<open>int\<close>.
\<close>

datatype pyfloat = Finite real | PosInf | NegInf | NaN

datatype pyval =
    PyNone
  | PyBool bool
  | PyInt int
  | PyFloat pyfloat
  | PyStr string
  | PyList "pyval list"

fun isinstance_float :: "pyval \<Rightarrow> bool" where
  "isinstance_float (PyFloat _) = True"
| "isinstance_float _ = False"

fun isinstance_int :: "pyval \<Rightarrow> bool" where
  "isinstance_int (PyInt _) = True"
| "isinstance_int (PyBool _) = True"
| "isinstance_int _ = False"

text \<open>
  \<^verbatim>\<open>math.isnan(x)\<close> converts its argument to a C double first. An \<^verbatim>\<open>int\<close> whose
  nearest double (round half to even) is outside the finite range makes the conversion
  raise OverflowError: that is every \<open>n\<close> with \<open>2^1024 - 2^970 \<le> |n|\<close>. An argument that
  is not a number raises TypeError.
\<close>

definition float_overflow :: "int \<Rightarrow> bool" where
  "float_overflow n = (2 ^ 1024 - 2 ^ 970 \<le> \<bar>n\<bar>)"

fun math_isnan :: "pyval \<Rightarrow> error + bool" where
  "math_isnan (PyFloat f) = Inr (f = NaN)"
| "math_isnan (PyInt n) = (if float_overflow n then Inl OverflowError else Inr False)"
| "math_isnan (PyBool b) = Inr False"
| "math_isnan _ = Inl TypeError"

text \<open>
  The loop of \<^verbatim>\<open>clean_values\<close>, with the list built so far as accumulator.
  \<^verbatim>\<open>item is None or item == ""\<close> skips the item; then
  \<^verbatim>\<open>(isinstance(item, float) or isinstance(item, int)) and math.isnan(item)\<close>
  calls \<^verbatim>\<open>math.isnan\<close> only on a float or an int; an exception leaves the loop.
\<close>

fun clean_loop :: "pyval list \<Rightarrow> pyval list \<Rightarrow> error + pyval list" where
  "clean_loop cleaned_data [] = Inr cleaned_data"
| "clean_loop cleaned_data (item # rest) =
     (if item = PyNone \<or> item = PyStr ''''
      then clean_loop cleaned_data rest
      else if isinstance_float item \<or> isinstance_int item
      then (case math_isnan item of
              Inl e \<Rightarrow> Inl e
            | Inr nan \<Rightarrow>
                if nan then clean_loop cleaned_data rest
                else clean_loop (cleaned_data @ [item]) rest)
      else clean_loop (cleaned_data @ [item]) rest)"

definition clean_values :: "pyval list \<Rightarrow> error + pyval list" where
  "clean_values data = clean_loop [] data"

text \<open>
  The loop of \<^verbatim>\<open>fill_values\<close>: the same two tests, in an \<^verbatim>\<open>if\<close>/\<^verbatim>\<open>elif\<close> chain,
  appending the fill value where \<^verbatim>\<open>clean_values\<close> skips.
\<close>

fun fill_loop :: "pyval \<Rightarrow> pyval list \<Rightarrow> pyval list \<Rightarrow> error + pyval list" where
  "fill_loop fill_value filled_data [] = Inr filled_data"
| "fill_loop fill_value filled_data (item # rest) =
     (if item = PyNone \<or> item = PyStr ''''
      then fill_loop fill_value (filled_data @ [fill_value]) rest
      else if isinstance_float item \<or> isinstance_int item
      then (case math_isnan item of
              Inl e \<Rightarrow> Inl e
            | Inr nan \<Rightarrow>
                if nan then fill_loop fill_value (filled_data @ [fill_value]) rest
                else fill_loop fill_value (filled_data @ [item]) rest)
      else fill_loop fill_value (filled_data @ [item]) rest)"

definition fill_values :: "pyval list \<Rightarrow> pyval \<Rightarrow> error + pyval list" where
  "fill_values data fill_value = fill_loop fill_value [] data"

text \<open>
  The missing markers the specification names: None, the empty string and a numeric
  NaN. \<open>convertible\<close> holds of every value but an \<^verbatim>\<open>int\<close> outside the range of a
  double.
\<close>

definition missing :: "pyval \<Rightarrow> bool" where
  "missing v = (v = PyNone \<or> v = PyStr '''' \<or> v = PyFloat NaN)"

fun convertible :: "pyval \<Rightarrow> bool" where
  "convertible (PyInt n) = (\<not> float_overflow n)"
| "convertible _ = True"

subsection \<open>Numbers: \<^verbatim>\<open>minmax_normalize\<close>\<close>

text \<open>
  A number is an \<^verbatim>\<open>int\<close> or a \<^verbatim>\<open>float\<close>. \<open>exact\<close> is its value: Python compares
  an \<^verbatim>\<open>int\<close> with a \<^verbatim>\<open>float\<close> by their exact values, without converting either.
  Every comparison with NaN is false. The two zeros of a double are equal and are one
  value here.
\<close>

datatype number = IntNum int | FloatNum pyfloat

fun exact :: "number \<Rightarrow> pyfloat" where
  "exact (IntNum n) = Finite (of_int n)"
| "exact (FloatNum f) = f"

fun float_lt :: "pyfloat \<Rightarrow> pyfloat \<Rightarrow> bool" where
  "float_lt NaN _ = False"
| "float_lt _ NaN = False"
| "float_lt (Finite x) (Finite y) = (x < y)"
| "float_lt NegInf NegInf = False"
| "float_lt NegInf _ = True"
| "float_lt _ NegInf = False"
| "float_lt PosInf _ = False"
| "float_lt (Finite x) PosInf = True"

definition float_eq :: "pyfloat \<Rightarrow> pyfloat \<Rightarrow> bool" where
  "float_eq a b = (a \<noteq> NaN \<and> a = b)"

definition num_lt :: "number \<Rightarrow> number \<Rightarrow> bool" where
  "num_lt x y = float_lt (exact x) (exact y)"

definition num_eq :: "number \<Rightarrow> number \<Rightarrow> bool" where
  "num_eq x y = float_eq (exact x) (exact y)"

text \<open>
  Arithmetic. The difference of two ints is an int. In every other case an int operand
  is converted to a double first, the left operand before the right one, which raises
  OverflowError beyond the range, and the operation is that of the doubles. The finite
  results of the doubles are the exact results rounded; the rounding \<open>rnd\<close> is a
  parameter. A subtraction never raises; a division raises ZeroDivisionError on a zero
  divisor, whatever the dividend. The true division of two ints rounds the exact
  quotient and raises OverflowError when it is beyond the range.
\<close>

definition to_float :: "(real \<Rightarrow> pyfloat) \<Rightarrow> int \<Rightarrow> error + pyfloat" where
  "to_float rnd n = (if float_overflow n then Inl OverflowError else Inr (rnd (of_int n)))"

fun as_float :: "(real \<Rightarrow> pyfloat) \<Rightarrow> number \<Rightarrow> error + pyfloat" where
  "as_float rnd (IntNum n) = to_float rnd n"
| "as_float rnd (FloatNum f) = Inr f"

fun float_sub :: "(real \<Rightarrow> pyfloat) \<Rightarrow> pyfloat \<Rightarrow> pyfloat \<Rightarrow> pyfloat" where
  "float_sub rnd NaN _ = NaN"
| "float_sub rnd _ NaN = NaN"
| "float_sub rnd (Finite x) (Finite y) = rnd (x - y)"
| "float_sub rnd PosInf PosInf = NaN"
| "float_sub rnd NegInf NegInf = NaN"
| "float_sub rnd PosInf _ = PosInf"
| "float_sub rnd NegInf _ = NegInf"
| "float_sub rnd (Finite x) PosInf = NegInf"
| "float_sub rnd (Finite x) NegInf = PosInf"

fun float_div :: "(real \<Rightarrow> pyfloat) \<Rightarrow> pyfloat \<Rightarrow> pyfloat \<Rightarrow> error + pyfloat" where
  "float_div rnd a (Finite y) =
     (if y = 0 then Inl ZeroDivisionError
      else (case a of
              NaN \<Rightarrow> Inr NaN
            | Finite x \<Rightarrow> Inr (rnd (x / y))
            | PosInf \<Rightarrow> Inr (if 0 < y then PosInf else NegInf)
            | NegInf \<Rightarrow> Inr (if 0 < y then NegInf else PosInf)))"
| "float_div rnd a NaN = Inr NaN"
| "float_div rnd (Finite x) b = Inr (Finite 0)"
| "float_div rnd a b = Inr NaN"

fun num_sub :: "(real \<Rightarrow> pyfloat) \<Rightarrow> number \<Rightarrow> number \<Rightarrow> error + number" where
  "num_sub rnd (IntNum a) (IntNum b) = Inr (IntNum (a - b))"
| "num_sub rnd x y =
     (case as_float rnd x of
        Inl e \<Rightarrow> Inl e
      | Inr a \<Rightarrow> (case as_float rnd y of
                   Inl e \<Rightarrow> Inl e
                 | Inr b \<Rightarrow> Inr (FloatNum (float_sub rnd a b))))"

fun num_truediv :: "(real \<Rightarrow> pyfloat) \<Rightarrow> number \<Rightarrow> number \<Rightarrow> error + number" where
  "num_truediv rnd (IntNum a) (IntNum b) =
     (if b = 0 then Inl ZeroDivisionError
      else if 2 ^ 1024 - 2 ^ 970 \<le> \<bar>real_of_int a / real_of_int b\<bar> then Inl OverflowError
      else Inr (FloatNum (rnd (real_of_int a / real_of_int b))))"
| "num_truediv rnd x y =
     (case as_float rnd x of
        Inl e \<Rightarrow> Inl e
      | Inr a \<Rightarrow> (case as_float rnd y of
                   Inl e \<Rightarrow> Inl e
                 | Inr b \<Rightarrow> (case float_div rnd a b of
                               Inl e \<Rightarrow> Inl e
                             | Inr q \<Rightarrow> Inr (FloatNum q))))"

text \<open>
  \<^verbatim>\<open>min(data)\<close> over a list raises ValueError on the empty list; otherwise it starts
  from the first element and replaces the candidate by each later element that is
  strictly smaller (\<^verbatim>\<open>max\<close>: strictly greater).
\<close>

fun py_min :: "number list \<Rightarrow> error + number" where
  "py_min [] = Inl ValueError"
| "py_min (x # xs) = Inr (fold (\<lambda>item m. if num_lt item m then item else m) xs x)"

fun py_max :: "number list \<Rightarrow> error + number" where
  "py_max [] = Inl ValueError"
| "py_max (x # xs) = Inr (fold (\<lambda>item m. if num_lt m item then item else m) xs x)"

text \<open>
  The element expression \<^verbatim>\<open>(item - min_val) / (max_val - min_val)\<close>: the left
  difference, then the right one, then the quotient.
\<close>

definition normalized_item ::
  "(real \<Rightarrow> pyfloat) \<Rightarrow> number \<Rightarrow> number \<Rightarrow> number \<Rightarrow> error + number" where
  "normalized_item rnd min_val max_val item =
     (case num_sub rnd item min_val of
        Inl e \<Rightarrow> Inl e
      | Inr a \<Rightarrow> (case num_sub rnd max_val min_val of
                   Inl e \<Rightarrow> Inl e
                 | Inr b \<Rightarrow> num_truediv rnd a b))"

text \<open>
  The parameters \<open>min_val\<close> and \<open>max_val\<close> are assigned anew from the data before
  their first use: \<^verbatim>\<open>min_val = min(data)\<close>, \<^verbatim>\<open>max_val = max(data)\<close>. The primed
  names below are the reassigned variables.
\<close>

definition minmax_normalize ::
  "(real \<Rightarrow> pyfloat) \<Rightarrow> number list \<Rightarrow> number \<Rightarrow> number \<Rightarrow> error + number list" where
  "minmax_normalize rnd data min_val max_val =
     (if data = [] then Inr data
      else
        (case py_min data of
           Inl e \<Rightarrow> Inl e
         | Inr min_val' \<Rightarrow>
            (case py_max data of
               Inl e \<Rightarrow> Inl e
             | Inr max_val' \<Rightarrow>
                 if num_eq min_val' max_val' then Inr (map (\<lambda>_. FloatNum (Finite 0)) data)
                 else comprehension (normalized_item rnd min_val' max_val') data)))"




subsection \<open>Strings: \<^verbatim>\<open>lst_to_ints\<close>\<close>

text \<open>
  A Python \<^verbatim>\<open>str\<close> is a sequence of code points. The model has the strings over the
  code points below 256 (the Latin-1 block), one \<open>char\<close> each; on this block the
  character classes below are those of the Unicode database that CPython uses.
\<close>

definition code_point :: "char \<Rightarrow> nat" where
  "code_point c = of_char c"

text \<open>
  The decimal digits of the block are \<^verbatim>\<open>0\<close> to \<^verbatim>\<open>9\<close>. \<^verbatim>\<open>str.isdigit\<close> accepts in
  addition the superscript digits U+00B2, U+00B3 and U+00B9, which are digits of the
  database but not decimal; it is false on the empty string.
\<close>

definition isdecimal_char :: "char \<Rightarrow> bool" where
  "isdecimal_char c = (48 \<le> code_point c \<and> code_point c \<le> 57)"

definition isdigit_char :: "char \<Rightarrow> bool" where
  "isdigit_char c = (isdecimal_char c \<or> code_point c \<in> {178, 179, 185})"

definition isdigit :: "string \<Rightarrow> bool" where
  "isdigit s = (s \<noteq> [] \<and> list_all isdigit_char s)"

text \<open>
  \<^verbatim>\<open>int(item)\<close> on the strings that reach it here, those that \<^verbatim>\<open>isdigit\<close> accepts:
  base 10, leading zeros allowed, and ValueError when a character is not a decimal
  digit. Signs, surrounding whitespace and underscores never pass \<^verbatim>\<open>isdigit\<close> and
  are not part of the model; neither is the interpreter's configurable limit on the
  number of digits of one conversion (\<^verbatim>\<open>sys.int_max_str_digits\<close>).
\<close>

definition decimal_value :: "string \<Rightarrow> int" where
  "decimal_value s = foldl (\<lambda>acc c. 10 * acc + int (code_point c - 48)) 0 s"

definition py_int :: "string \<Rightarrow> error + int" where
  "py_int s =
     (if s \<noteq> [] \<and> list_all isdecimal_char s then Inr (decimal_value s) else Inl ValueError)"

text \<open>\<^verbatim>\<open>[int(item) for item in data if item.isdigit()]\<close>\<close>

definition lst_to_ints :: "string list \<Rightarrow> error + int list" where
  "lst_to_ints data = comprehension py_int (filter isdigit data)"

subsection \<open>\<^verbatim>\<open>clean_stop_words\<close>\<close>

text \<open>
  The whitespace of \<^verbatim>\<open>str.split()\<close> on the block: U+0009 to U+000D, U+001C to U+001F,
  the space, U+0085 and U+00A0.
\<close>

definition isspace_char :: "char \<Rightarrow> bool" where
  "isspace_char c = (code_point c \<in> {9, 10, 11, 12, 13, 28, 29, 30, 31, 32, 133, 160})"

text \<open>
  \<^verbatim>\<open>str.lower()\<close> on the block: the letters \<^verbatim>\<open>A\<close> to \<^verbatim>\<open>Z\<close> and U+00C0 to U+00DE,
  without the multiplication sign U+00D7, move up by 32; every other character stays.
\<close>

definition lower_char :: "char \<Rightarrow> char" where
  "lower_char c =
     (let n = code_point c
      in if (65 \<le> n \<and> n \<le> 90) \<or> (192 \<le> n \<and> n \<le> 222 \<and> n \<noteq> 215)
         then char_of (n + 32) else c)"

definition py_lower :: "string \<Rightarrow> string" where
  "py_lower s = map lower_char s"

text \<open>
  \<^verbatim>\<open>text.split()\<close> with no separator: skip whitespace; at the end of the string stop;
  otherwise take the characters up to the next whitespace as a word and go on behind it.
\<close>

function py_split :: "string \<Rightarrow> string list" where
  "py_split text =
     (case dropWhile isspace_char text of
        [] \<Rightarrow> []
      | c # cs \<Rightarrow>
          (c # takeWhile (\<lambda>x. \<not> isspace_char x) cs)
            # py_split (dropWhile (\<lambda>x. \<not> isspace_char x) cs))"
  by pat_completeness auto
termination
proof (relation "measure length")
  show "wf (measure length)" by simp
next
  fix s :: string and c cs
  assume d: "dropWhile isspace_char s = c # cs"
  have "length (dropWhile (\<lambda>x. \<not> isspace_char x) cs) \<le> length cs"
    by (rule length_dropWhile_le)
  also have "length cs < length (dropWhile isspace_char s)"
    by (simp add: d)
  also have "\<dots> \<le> length s"
    by (rule length_dropWhile_le)
  finally show "(dropWhile (\<lambda>x. \<not> isspace_char x) cs, s) \<in> measure length"
    by simp
qed

declare py_split.simps [simp del]

text \<open>\<^verbatim>\<open>sep.join(words)\<close>: the words with the separator between neighbours.\<close>

fun py_join :: "string \<Rightarrow> string list \<Rightarrow> string" where
  "py_join sep [] = []"
| "py_join sep [w] = w"
| "py_join sep (w # ws) = w @ sep @ py_join sep ws"

definition clean_stop_words :: "string \<Rightarrow> string set \<Rightarrow> string" where
  "clean_stop_words text stopwords =
     (let words = py_split text;
          cleaned_text = py_join '' '' (filter (\<lambda>word. py_lower word \<notin> stopwords) words)
      in cleaned_text)"

text \<open>
  Splitting on whitespace as the specification words it: the tokens of a text are its
  maximal runs of characters that are not whitespace, in order. \<open>runs\<close> reads the text
  character by character with the run collected so far. A \<open>token\<close> is a non-empty
  string without whitespace.
\<close>

fun runs :: "string \<Rightarrow> string \<Rightarrow> string list" where
  "runs cur [] = (if cur = [] then [] else [cur])"
| "runs cur (c # cs) =
     (if isspace_char c then (if cur = [] then runs [] cs else cur # runs [] cs)
      else runs (cur @ [c]) cs)"

definition tokens :: "string \<Rightarrow> string list" where
  "tokens text = runs [] text"

definition token :: "string \<Rightarrow> bool" where
  "token w = (w \<noteq> [] \<and> list_all (\<lambda>c. \<not> isspace_char c) w)"

section \<open>Properties\<close>

subsection \<open>Clipping\<close>

lemma py_min2_min: "py_min2 a b = min a b"
  by (simp add: py_min2_def min_def)

lemma py_max2_max: "py_max2 a b = max a b"
  by (simp add: py_max2_def max_def)

lemma clip_values_map: "clip_values data lo hi = map (\<lambda>item. max (min item hi) lo) data"
  by (simp add: clip_values_def py_min2_min py_max2_max)

text \<open>
  Claim C3, as the code has it. The claim asks for \<open>lo \<le> x \<le> hi\<close> on every output
  element with no hypothesis relating the thresholds; with \<open>lo > hi\<close> no number
  satisfies that. What holds for all thresholds: the output has the length of the input,
  element \<open>i\<close> of the output is computed from element \<open>i\<close> of the input alone, and every
  output element is at least \<open>lo\<close>. It is at most \<open>hi\<close> when \<open>lo \<le> hi\<close>.
\<close>

theorem clip_values_range:
  "length (clip_values data lo hi) = length data
   \<and> (\<forall>i < length data.
         clip_values data lo hi ! i = py_max2 (py_min2 (data ! i) hi) lo)
   \<and> (\<forall>x \<in> set (clip_values data lo hi). lo \<le> x)
   \<and> (lo \<le> hi \<longrightarrow> (\<forall>x \<in> set (clip_values data lo hi). x \<le> hi))"
proof -
  have len: "length (clip_values data lo hi) = length data"
    by (simp add: clip_values_def)
  have pointwise: "\<forall>i < length data.
      clip_values data lo hi ! i = py_max2 (py_min2 (data ! i) hi) lo"
    by (simp add: clip_values_def)
  have lower: "\<forall>x \<in> set (clip_values data lo hi). lo \<le> x"
    by (auto simp: clip_values_map)
  have upper: "lo \<le> hi \<longrightarrow> (\<forall>x \<in> set (clip_values data lo hi). x \<le> hi)"
    by (auto simp: clip_values_map)
  from len pointwise lower upper show ?thesis by blast
qed

theorem clip_values_range_witness:
  "length (clip_values [1, 5, 10, 15, 20] 5 15) = length [1, 5, 10, 15, 20 :: real]
   \<and> clip_values [1, 5, 10, 15, 20] 5 15 ! 4 = py_max2 (py_min2 20 15) 5
   \<and> list_all (\<lambda>x. 5 \<le> x) (clip_values [1, 5, 10, 15, 20] 5 15)
   \<and> (5::real) \<le> 15
   \<and> list_all (\<lambda>x. x \<le> 15) (clip_values [1, 5, 10, 15, 20] 5 15)"
  using clip_values_range [of "[1, 5, 10, 15, 20]" 5 15]
  by (simp add: list_all_iff)

text \<open>
  The claim C3 as stated fails when the thresholds are crossed: clipping \<open>[1]\<close> with
  \<open>lo = 5\<close> and \<open>hi = 3\<close> gives \<open>[5]\<close>, and \<open>5 \<le> 3\<close> is false.
\<close>

theorem clip_values_crossed_counterexample:
  "clip_values [1] 5 3 = [5]
   \<and> \<not> (5 \<le> clip_values [1] 5 3 ! 0 \<and> clip_values [1] 5 3 ! 0 \<le> 3)"
  by (simp add: clip_values_def py_min2_def py_max2_def)

text \<open>
  Claim C8: clipping is idempotent, for every list and every pair of thresholds,
  crossed or not.
\<close>

theorem clip_values_idempotent:
  "clip_values (clip_values data lo hi) lo hi = clip_values data lo hi"
proof -
  have "max (min (max (min x hi) lo) hi) lo = max (min x hi) lo" for x :: real
    by (simp add: max_def min_def)
  then show ?thesis
    by (simp add: clip_values_map)
qed



subsection \<open>Min-max normalisation\<close>

lemma comprehension_total:
  "(\<And>x. x \<in> set xs \<Longrightarrow> f x = Inr (g x)) \<Longrightarrow> comprehension f xs = Inr (map g xs)"
  by (induction xs) simp_all

lemma float_lt_total: "a \<noteq> NaN \<Longrightarrow> b \<noteq> NaN \<Longrightarrow> float_lt a b \<or> float_eq a b \<or> float_lt b a"
  by (cases a; cases b) (auto simp: float_eq_def)

lemma float_lt_trans: "float_lt a b \<Longrightarrow> float_lt b c \<Longrightarrow> float_lt a c"
  by (cases a; cases b; cases c) auto

lemma float_eq_lt: "float_eq a b \<Longrightarrow> float_lt b c \<Longrightarrow> float_lt a c"
  by (simp add: float_eq_def)

lemma float_lt_eq: "float_lt a b \<Longrightarrow> float_eq b c \<Longrightarrow> float_lt a c"
  by (simp add: float_eq_def)

lemma float_lt_irrefl: "\<not> float_lt a a"
  by (cases a) auto

lemma float_lt_asym: "float_lt a b \<Longrightarrow> \<not> float_lt b a"
  by (cases a; cases b) auto
















lemma minmax_normalize_overflow:
  "minmax_normalize rnd [FloatNum (Finite (1/2)), IntNum (10 ^ 400)] min_val max_val
     = Inl OverflowError"
  by (simp add: minmax_normalize_def num_lt_def num_eq_def float_eq_def normalized_item_def
      to_float_def float_overflow_def)


subsection \<open>Shuffling\<close>

lemma shuffle_loop_permutes:
  assumes "\<forall>n g. 0 < n \<longrightarrow> fst (rb n g) < n" "k < length x \<or> k = 0"
  shows "\<exists>out g'. shuffle_loop rb k x g = Inr (out, g') \<and> mset out = mset x"
  using assms(2)
proof (induction k arbitrary: x g)
  case 0
  then show ?case by simp
next
  case (Suc k)
  obtain j g' where r: "rb (Suc k + 1) g = (j, g')" by (cases "rb (Suc k + 1) g")
  from assms(1) have "fst (rb (Suc k + 1) g) < Suc k + 1" by simp
  with r have j: "j \<le> Suc k" by simp
  from Suc.prems have i: "Suc k < length x" by simp
  with j have jl: "j < length x" by simp
  let ?x = "x[Suc k := x ! j, j := x ! Suc k]"
  have m: "mset ?x = mset x" using jl i by (rule mset_swap)
  from i have "k < length ?x \<or> k = 0" by simp
  from Suc.IH [OF this, of g'] obtain out g'' where
    "shuffle_loop rb k ?x g' = Inr (out, g'')" "mset out = mset ?x" by blast
  with r jl i m show ?case by simp
qed

lemma random_shuffle_permutes:
  assumes "\<forall>n g. 0 < n \<longrightarrow> fst (rb n g) < n"
  shows "\<exists>out g'. random_shuffle rb x g = Inr (out, g') \<and> mset out = mset x"
proof -
  have "length x - 1 < length x \<or> length x - 1 = 0" by (cases x) simp_all
  with assms show ?thesis unfolding random_shuffle_def by (rule shuffle_loop_permutes)
qed

text \<open>
  Claim C6: for every list and every seed, also none, \<open>lst_shuffle\<close> returns a
  permutation of its input: the same multiset of elements, so that sorting the output
  gives what sorting the input gives, and the same length. The generator is any one
  whose draws below \<open>n\<close> are indices below \<open>n\<close>.
\<close>

theorem lst_shuffle_permutation:
  fixes data :: "'a::linorder list"
  assumes "\<forall>n g. 0 < n \<longrightarrow> fst (randbelow R n g) < n"
  shows "\<exists>out g'. lst_shuffle R data seed g = Inr (out, g')
           \<and> mset out = mset data \<and> sort out = sort data \<and> length out = length data"
proof -
  let ?g1 = "case seed of None \<Rightarrow> g | Some s \<Rightarrow> seed_state R s"
  from assms obtain out g' where
    r: "random_shuffle (randbelow R) data ?g1 = Inr (out, g')" and m: "mset out = mset data"
    using random_shuffle_permutes [of "randbelow R" data ?g1] by blast
  from m have "sort out = sort data"
    by (intro properties_for_sort) simp_all
  moreover from m have "length out = length data"
    by (rule mset_eq_length)
  ultimately show ?thesis using r m by (simp add: lst_shuffle_def)
qed

theorem lst_shuffle_permutation_witness:
  "lst_shuffle counter_generator [1, 2, 3, 4, 5 :: int] (Some 7) 0 = Inr ([2, 5, 4, 1, 3], 11)
   \<and> mset [2, 5, 4, 1, 3 :: int] = mset [1, 2, 3, 4, 5]
   \<and> sort [2, 5, 4, 1, 3 :: int] = sort [1, 2, 3, 4, 5]
   \<and> length [2, 5, 4, 1, 3 :: int] = length [1, 2, 3, 4, 5 :: int]"
proof -
  have c: "\<forall>n g. 0 < n \<longrightarrow> fst (randbelow counter_generator n g) < n"
    by (simp add: counter_generator_def)
  have e: "lst_shuffle counter_generator [1, 2, 3, 4, 5 :: int] (Some 7) 0
      = Inr ([2, 5, 4, 1, 3], 11)"
    by code_simp
  from lst_shuffle_permutation [OF c, of "[1, 2, 3, 4, 5 :: int]" "Some 7" 0]
  obtain out g' where
    r: "lst_shuffle counter_generator [1, 2, 3, 4, 5 :: int] (Some 7) 0 = Inr (out, g')"
    and p: "mset out = mset [1, 2, 3, 4, 5]" "sort out = sort [1, 2, 3, 4, 5]"
      "length out = length [1, 2, 3, 4, 5 :: int]"
    by blast
  from r have "out = [2, 5, 4, 1, 3]" unfolding e by simp
  with p e show ?thesis by blast
qed


subsection \<open>Missing values\<close>

lemma fill_loop_convertible:
  "list_all convertible data \<Longrightarrow>
     fill_loop fv acc data = Inr (acc @ map (\<lambda>v. if missing v then fv else v) data)"
proof (induction data arbitrary: acc)
  case Nil
  then show ?case by simp
next
  case (Cons item rest)
  then show ?case
    by (cases item) (simp_all add: missing_def)
qed

lemma fill_values_convertible:
  "list_all convertible data \<Longrightarrow>
     fill_values data fv = Inr (map (\<lambda>v. if missing v then fv else v) data)"
  by (simp add: fill_values_def fill_loop_convertible)

lemma clean_loop_convertible:
  "list_all convertible data \<Longrightarrow>
     clean_loop acc data = Inr (acc @ filter (\<lambda>v. \<not> missing v) data)"
proof (induction data arbitrary: acc)
  case Nil
  then show ?case by simp
next
  case (Cons item rest)
  then show ?case
    by (cases item) (simp_all add: missing_def)
qed

lemma clean_values_convertible:
  "list_all convertible data \<Longrightarrow> clean_values data = Inr (filter (\<lambda>v. \<not> missing v) data)"
  by (simp add: clean_values_def clean_loop_convertible)

lemma clean_fill_convertible:
  assumes "list_all convertible data" "convertible fv" "\<not> missing fv"
  shows "\<exists>out. fill_values data fv = Inr out \<and> clean_values out = Inr out"
proof -
  let ?out = "map (\<lambda>v. if missing v then fv else v) data"
  from assms(1) have f: "fill_values data fv = Inr ?out" by (rule fill_values_convertible)
  from assms(1,2) have "list_all convertible ?out" by (auto simp: list_all_iff)
  then have "clean_values ?out = Inr (filter (\<lambda>v. \<not> missing v) ?out)"
    by (rule clean_values_convertible)
  moreover from assms(3) have "filter (\<lambda>v. \<not> missing v) ?out = ?out"
    by (auto simp: filter_id_conv)
  ultimately show ?thesis using f by simp
qed

text \<open>
  Claim C7 says that \<open>fill_values\<close> returns, for every input list, a list of the same
  length with the missing markers replaced and every other element unchanged. The code
  does so on every list of convertible values (\<open>fill_values_convertible\<close>). On a list
  that holds an \<^verbatim>\<open>int\<close> outside the range of a double it raises instead: the element
  is not a missing marker, and \<^verbatim>\<open>math.isnan\<close> is called on it all the same.
\<close>

theorem fill_values_overflow:
  "fill_values [PyInt (10 ^ 400)] (PyInt 0) = Inl OverflowError"
  by (simp add: fill_values_def float_overflow_def)

text \<open>
  Claim C10 says that \<open>clean_values\<close> leaves the output of \<open>fill_values\<close> unchanged
  when the fill value is not a missing marker. The code does so when the data and the
  fill value are convertible (\<open>clean_fill_convertible\<close>). With a fill value that is an
  \<^verbatim>\<open>int\<close> outside the range of a double, \<open>fill_values\<close> returns a list and
  \<open>clean_values\<close> raises on it.
\<close>

theorem clean_of_fill_overflow:
  "fill_values [PyNone] (PyInt (10 ^ 400)) = Inr [PyInt (10 ^ 400)]
   \<and> clean_values [PyInt (10 ^ 400)] = Inl OverflowError"
  by (simp add: fill_values_def clean_values_def float_overflow_def)

lemma fill_values_docstring:
  "fill_values [PyInt 1, PyInt 2, PyNone, PyStr '''', PyInt 3, PyFloat NaN] (PyInt (-1))
     = Inr [PyInt 1, PyInt 2, PyInt (-1), PyInt (-1), PyInt 3, PyInt (-1)]"
  by (simp add: fill_values_def float_overflow_def)

subsection \<open>Conversion to integers\<close>

lemma lst_to_ints_decimal:
  assumes "\<forall>s \<in> set data. \<forall>c \<in> set s. code_point c \<notin> {178, 179, 185}"
  shows "lst_to_ints data =
    Inr (map decimal_value (filter (\<lambda>s. s \<noteq> [] \<and> list_all isdecimal_char s) data))"
proof -
  have "filter isdigit data = filter (\<lambda>s. s \<noteq> [] \<and> list_all isdecimal_char s) data"
    using assms by (intro filter_cong) (auto simp: isdigit_def isdigit_char_def list_all_iff)
  moreover have "comprehension py_int (filter (\<lambda>s. s \<noteq> [] \<and> list_all isdecimal_char s) data)
      = Inr (map decimal_value (filter (\<lambda>s. s \<noteq> [] \<and> list_all isdecimal_char s) data))"
    by (intro comprehension_total) (simp add: py_int_def)
  ultimately show ?thesis by (simp add: lst_to_ints_def)
qed

lemma lst_to_ints_docstring:
  "lst_to_ints [''1'', ''2'', ''three'', ''4'', ''5five''] = Inr [1, 2, 4]"
  by code_simp

text \<open>
  Claim C2 says that \<open>lst_to_ints\<close> never raises and drops every token that is not made
  of decimal digits. The code does so on tokens without superscript digits
  (\<open>lst_to_ints_decimal\<close>). A token of superscript digits passes \<^verbatim>\<open>isdigit\<close>, and
  \<^verbatim>\<open>int\<close> raises ValueError on it: the token \<^verbatim>\<open>'\xb2'\<close> is not dropped, the call fails.
\<close>

theorem lst_to_ints_superscript:
  "isdigit [CHR 0xB2] \<and> lst_to_ints [''1'', [CHR 0xB2], ''3''] = Inl ValueError"
  by (simp add: lst_to_ints_def isdigit_def isdigit_char_def isdecimal_char_def code_point_def
      py_int_def decimal_value_def)

subsection \<open>Stop words\<close>

lemma py_split_Nil: "py_split [] = []"
  by (simp add: py_split.simps)

lemma py_split_space: "isspace_char c \<Longrightarrow> py_split (c # cs) = py_split cs"
  by (subst (1 2) py_split.simps) simp

lemma py_split_nonspace:
  "\<not> isspace_char c \<Longrightarrow>
     py_split (c # cs) =
       (c # takeWhile (\<lambda>x. \<not> isspace_char x) cs) # py_split (dropWhile (\<lambda>x. \<not> isspace_char x) cs)"
  by (subst py_split.simps) simp

lemma runs_py_split:
  "runs cur s =
     (if cur = [] then py_split s
      else (cur @ takeWhile (\<lambda>x. \<not> isspace_char x) s)
             # py_split (dropWhile (\<lambda>x. \<not> isspace_char x) s))"
proof (induction s arbitrary: cur)
  case Nil
  then show ?case by (simp add: py_split_Nil)
next
  case (Cons c cs)
  show ?case
  proof (cases "isspace_char c")
    case True
    then show ?thesis by (simp add: Cons.IH [of "[]"] py_split_space)
  next
    case False
    then show ?thesis by (simp add: Cons.IH [of "cur @ [c]"] py_split_nonspace)
  qed
qed

lemma py_split_tokens: "py_split text = tokens text"
  by (simp add: tokens_def runs_py_split)

lemma py_split_token: "list_all token (py_split s)"
proof (induction s rule: py_split.induct)
  case (1 s)
  show ?case
  proof (cases "dropWhile isspace_char s")
    case Nil
    have "py_split s = []"
      by (subst py_split.simps) (simp only: Nil list.case)
    then show ?thesis by simp
  next
    case (Cons c cs)
    have unfold: "py_split s =
        (c # takeWhile (\<lambda>x. \<not> isspace_char x) cs)
          # py_split (dropWhile (\<lambda>x. \<not> isspace_char x) cs)"
      by (subst py_split.simps) (simp only: Cons list.case)
    from Cons have "\<not> isspace_char c"
      by (metis hd_dropWhile list.sel(1) list.distinct(1))
    moreover have "list_all (\<lambda>c. \<not> isspace_char c) (takeWhile (\<lambda>x. \<not> isspace_char x) cs)"
      using set_takeWhileD [of _ "\<lambda>x. \<not> isspace_char x" cs]
      by (auto simp: list_all_iff)
    ultimately have "token (c # takeWhile (\<lambda>x. \<not> isspace_char x) cs)"
      by (simp add: token_def)
    with "1.IH" [OF Cons] show ?thesis
      by (simp add: unfold)
  qed
qed

lemma py_split_token_app:
  assumes "token w" "isspace_char c"
  shows "py_split (w @ c # rest) = w # py_split rest"
proof -
  from assms(1) obtain a as where w: "w = a # as" and a: "\<not> isspace_char a"
    and as: "\<forall>x \<in> set as. \<not> isspace_char x"
    by (cases w) (auto simp: token_def list_all_iff)
  from as assms(2) have t: "takeWhile (\<lambda>x. \<not> isspace_char x) (as @ c # rest) = as"
    by (simp add: takeWhile_append2 list_all_iff)
  from as assms(2) have d: "dropWhile (\<lambda>x. \<not> isspace_char x) (as @ c # rest) = c # rest"
    by (simp add: dropWhile_append2 list_all_iff)
  show ?thesis
    using a assms(2) by (simp add: w py_split_nonspace t d py_split_space)
qed

lemma py_split_token_single:
  assumes "token w"
  shows "py_split w = [w]"
proof -
  from assms obtain a as where w: "w = a # as" and a: "\<not> isspace_char a"
    and as: "\<forall>x \<in> set as. \<not> isspace_char x"
    by (cases w) (auto simp: token_def list_all_iff)
  from as have t: "takeWhile (\<lambda>x. \<not> isspace_char x) as = as"
    by simp
  from as have d: "dropWhile (\<lambda>x. \<not> isspace_char x) as = []"
    by simp
  from a show ?thesis by (simp add: w py_split_nonspace t d py_split_Nil)
qed

lemma space_isspace: "isspace_char CHR '' ''"
  by (simp add: isspace_char_def code_point_def)

lemma py_split_join:
  "list_all token ws \<Longrightarrow> py_split (py_join '' '' ws) = ws"
proof (induction ws)
  case Nil
  then show ?case by (simp add: py_split_Nil)
next
  case (Cons w ws)
  then show ?case
    by (cases ws) (simp_all add: py_split_token_single py_split_token_app space_isspace)
qed

text \<open>
  Claim C4: \<open>clean_stop_words\<close> splits the text on whitespace, drops a token exactly
  when its lowercased form is in the stopword set, with no stripping of punctuation, and
  joins the surviving tokens in their order with single spaces. The result is the join
  of the kept tokens of the text; the tokens are non-empty and free of whitespace; and
  splitting the result gives back exactly the kept tokens.
\<close>

theorem clean_stop_words_tokens:
  "clean_stop_words text stopwords =
     py_join '' '' (filter (\<lambda>t. map lower_char t \<notin> stopwords) (tokens text))
   \<and> list_all token (tokens text)
   \<and> py_split (clean_stop_words text stopwords) =
       filter (\<lambda>t. map lower_char t \<notin> stopwords) (tokens text)"
proof -
  let ?kept = "filter (\<lambda>t. map lower_char t \<notin> stopwords) (tokens text)"
  have a: "clean_stop_words text stopwords = py_join '' '' ?kept"
    by (simp add: clean_stop_words_def py_split_tokens py_lower_def)
  have b: "list_all token (tokens text)"
    using py_split_token [of "text"] by (simp add: py_split_tokens)
  then have "list_all token ?kept"
    by (simp add: list_all_iff)
  then have c: "py_split (clean_stop_words text stopwords) = ?kept"
    unfolding a by (rule py_split_join)
  from a b c show ?thesis by blast
qed

theorem clean_stop_words_tokens_witness:
  "clean_stop_words ''This is a test of the stopword removal.'' {''is'', ''a'', ''the'', ''this''}
     = ''test of stopword removal.''
   \<and> py_split ''test of stopword removal.'' = [''test'', ''of'', ''stopword'', ''removal.'']
   \<and> clean_stop_words ''Hello, world! This is a test.'' {''this'', ''is'', ''a'', '','', ''!''}
     = ''Hello, world! test.''"
proof -
  have k1: "filter (\<lambda>t. map lower_char t \<notin> {''is'', ''a'', ''the'', ''this''})
      (tokens ''This is a test of the stopword removal.'')
      = [''test'', ''of'', ''stopword'', ''removal.'']"
    by code_simp
  have j1: "py_join '' '' [''test'', ''of'', ''stopword'', ''removal.'']
      = ''test of stopword removal.''"
    by simp
  have k2: "filter (\<lambda>t. map lower_char t \<notin> {''this'', ''is'', ''a'', '','', ''!''})
      (tokens ''Hello, world! This is a test.'') = [''Hello,'', ''world!'', ''test.'']"
    by code_simp
  have j2: "py_join '' '' [''Hello,'', ''world!'', ''test.''] = ''Hello, world! test.''"
    by simp
  note t1 = clean_stop_words_tokens [of "''This is a test of the stopword removal.''"
      "{''is'', ''a'', ''the'', ''this''}", unfolded k1 j1]
  note t2 = clean_stop_words_tokens [of "''Hello, world! This is a test.''"
      "{''this'', ''is'', ''a'', '','', ''!''}", unfolded k2 j2]
  from t1 have a: "clean_stop_words ''This is a test of the stopword removal.''
      {''is'', ''a'', ''the'', ''this''} = ''test of stopword removal.''"
    by blast
  from t1 have "py_split (clean_stop_words ''This is a test of the stopword removal.''
      {''is'', ''a'', ''the'', ''this''}) = [''test'', ''of'', ''stopword'', ''removal.'']"
    by blast
  then have b: "py_split ''test of stopword removal.''
      = [''test'', ''of'', ''stopword'', ''removal.'']"
    unfolding a .
  from t2 have c: "clean_stop_words ''Hello, world! This is a test.''
      {''this'', ''is'', ''a'', '','', ''!''} = ''Hello, world! test.''"
    by blast
  from a b c show ?thesis by blast
qed

end
